theory Spec2Isabelle
  imports Complex_Main
begin

section \<open>JavaScript numbers\<close>

text \<open>
  The server computes with JavaScript numbers. A number is modelled as a real or as
  \<open>NaN\<close>: arithmetic is exact on the reals, \<open>NaN\<close> is contagious, and every
  comparison with \<open>NaN\<close> is false. Rounding and the two infinities are not represented.
  Wherever a divisor of the program can be zero, the dividend is zero too (the mean of
  an empty list, \<open>0 / 0\<close>), and the quotient is \<open>NaN\<close> in JavaScript and here.
  The value \<open>undefined\<close> read from an array past its end is rendered as \<open>NaN\<close> too:
  \<open>isNaN(undefined)\<close> is true, \<open>undefined\<close> is falsy, every comparison with it is false
  and arithmetic on it gives \<open>NaN\<close>.
\<close>

datatype jsnum = NaN | Num real

fun isNaN :: "jsnum \<Rightarrow> bool" where
  "isNaN NaN = True"
| "isNaN (Num a) = False"

fun jadd :: "jsnum \<Rightarrow> jsnum \<Rightarrow> jsnum" where
  "jadd (Num a) (Num b) = Num (a + b)"
| "jadd _ _ = NaN"

fun jsub :: "jsnum \<Rightarrow> jsnum \<Rightarrow> jsnum" where
  "jsub (Num a) (Num b) = Num (a - b)"
| "jsub _ _ = NaN"

fun jmul :: "jsnum \<Rightarrow> jsnum \<Rightarrow> jsnum" where
  "jmul (Num a) (Num b) = Num (a * b)"
| "jmul _ _ = NaN"

fun jdiv :: "jsnum \<Rightarrow> jsnum \<Rightarrow> jsnum" where
  "jdiv (Num a) (Num b) = (if b = 0 then NaN else Num (a / b))"
| "jdiv _ _ = NaN"

fun jge :: "jsnum \<Rightarrow> jsnum \<Rightarrow> bool" where
  "jge (Num a) (Num b) = (a \<ge> b)"
| "jge _ _ = False"

fun jgt :: "jsnum \<Rightarrow> jsnum \<Rightarrow> bool" where
  "jgt (Num a) (Num b) = (a > b)"
| "jgt _ _ = False"

fun jlt :: "jsnum \<Rightarrow> jsnum \<Rightarrow> bool" where
  "jlt (Num a) (Num b) = (a < b)"
| "jlt _ _ = False"

fun Math_min :: "jsnum \<Rightarrow> jsnum \<Rightarrow> jsnum" where
  "Math_min (Num a) (Num b) = Num (min a b)"
| "Math_min _ _ = NaN"

fun Math_max :: "jsnum \<Rightarrow> jsnum \<Rightarrow> jsnum" where
  "Math_max (Num a) (Num b) = Num (max a b)"
| "Math_max _ _ = NaN"

text \<open>\<open>a || b\<close> on numbers: \<open>0\<close> and \<open>NaN\<close> are falsy.\<close>

fun truthy :: "jsnum \<Rightarrow> bool" where
  "truthy NaN = False"
| "truthy (Num a) = (a \<noteq> 0)"

definition orElse :: "jsnum \<Rightarrow> jsnum \<Rightarrow> jsnum" where
  "orElse a b = (if truthy a then a else b)"

text \<open>\<open>xs.reduce((a, b) => a + b, 0)\<close>\<close>

definition reduceSum :: "jsnum list \<Rightarrow> jsnum" where
  "reduceSum xs = foldl jadd (Num 0) xs"

datatype js_error = TypeError

text \<open>A counted loop whose body may throw: the first exception ends it.\<close>

fun forRange :: "('a \<Rightarrow> 's \<Rightarrow> js_error + 's) \<Rightarrow> 'a list \<Rightarrow> 's \<Rightarrow> js_error + 's" where
  "forRange body [] s = Inr s"
| "forRange body (k # ks) s =
     (case body k s of Inl e \<Rightarrow> Inl e | Inr s' \<Rightarrow> forRange body ks s')"

section \<open>aggregateTo3x3\<close>

definition blockSize :: real where
  "blockSize = 100 / 3"

text \<open>
  \<open>rows[r][c]\<close>: reading a row that does not exist throws a TypeError; reading
  past the end of a row gives \<open>undefined\<close>.
\<close>

definition at2 :: "jsnum list list \<Rightarrow> nat \<Rightarrow> nat \<Rightarrow> js_error + jsnum" where
  "at2 rows r c =
     (if r < length rows
      then Inr (if c < length (rows ! r) then rows ! r ! c else NaN)
      else Inl TypeError)"

definition blockBody :: "jsnum list list \<Rightarrow> nat \<Rightarrow> nat \<Rightarrow> jsnum \<times> nat \<Rightarrow> js_error + jsnum \<times> nat" where
  "blockBody ndviArray x y acc =
     (case acc of (acc_sum, count) \<Rightarrow>
        if x < 100 \<and> y < 100
        then (case at2 ndviArray y x of
                Inl e \<Rightarrow> Inl e
              | Inr v \<Rightarrow> if \<not> isNaN v then Inr (jadd acc_sum v, count + 1) else Inr (acc_sum, count))
        else Inr (acc_sum, count))"

definition blockMean :: "jsnum list list \<Rightarrow> nat \<Rightarrow> nat \<Rightarrow> js_error + jsnum" where
  "blockMean ndviArray i j =
     (let xStart = nat \<lfloor>real i * blockSize\<rfloor>;
          xEnd = nat \<lfloor>(real i + 1) * blockSize\<rfloor>;
          yStart = nat \<lfloor>real j * blockSize\<rfloor>;
          yEnd = nat \<lfloor>(real j + 1) * blockSize\<rfloor>
      in case forRange (\<lambda>x. forRange (blockBody ndviArray x) [yStart..<yEnd])
                [xStart..<xEnd] (Num 0, 0) of
           Inl e \<Rightarrow> Inl e
         | Inr (acc_sum, count) \<Rightarrow>
             Inr (if count > 0 then jdiv acc_sum (Num (real count)) else Num 0))"

definition aggregateTo3x3 :: "jsnum list list \<Rightarrow> js_error + jsnum list list" where
  "aggregateTo3x3 ndviArray =
     forRange (\<lambda>i. forRange (\<lambda>j result.
         case blockMean ndviArray i j of
           Inl e \<Rightarrow> Inl e
         | Inr v \<Rightarrow> Inr (result[j := (result ! j)[i := v]])) [0..<3])
       [0..<3] (replicate 3 (replicate 3 (Num 0)))"

section \<open>generateGridFromMatrix\<close>

text \<open>
  The five per-cell labels are the Russian words for excellent, good, average, poor and
  critical (adverbs); the overall labels further down are the same words as adjectives.
\<close>

datatype cell_health = Otlichno | Horosho | Sredne | Ploho | Kritichno

definition cellHealth :: "jsnum \<Rightarrow> cell_health" where
  "cellHealth v =
     (if jge v (Num 0.7) then Otlichno
      else if jge v (Num 0.55) then Horosho
      else if jge v (Num 0.4) then Sredne
      else if jge v (Num 0.25) then Ploho
      else Kritichno)"

definition cellColor :: "jsnum \<Rightarrow> string" where
  "cellColor v =
     (if jge v (Num 0.7) then ''#2e7d32''
      else if jge v (Num 0.55) then ''#7cb342''
      else if jge v (Num 0.4) then ''#fbc02d''
      else if jge v (Num 0.25) then ''#f57c00''
      else ''#d32f2f'')"

record feature =
  ndvi :: jsnum
  health :: cell_health
  color :: string
  coordinates :: "(real \<times> real) list"

record grid_result =
  grid :: "feature list"
  avgNdvi :: jsnum

type_synonym bbox = "real \<times> real \<times> real \<times> real"

definition gridCell :: "bbox \<Rightarrow> jsnum list list \<Rightarrow> nat \<Rightarrow> nat \<Rightarrow> js_error + feature" where
  "gridCell bbox matrix i j =
     (case bbox of (minLng, minLat, maxLng, maxLat) \<Rightarrow>
       (let stepX = (maxLng - minLng) / 3;
            stepY = (maxLat - minLat) / 3;
            cellMinLng = minLng + real i * stepX;
            cellMaxLng = minLng + (real i + 1) * stepX;
            cellMinLat = minLat + real j * stepY;
            cellMaxLat = minLat + (real j + 1) * stepY
        in (case at2 matrix j i of
              Inl e \<Rightarrow> Inl e
            | Inr v \<Rightarrow>
                Inr \<lparr>ndvi = v, health = cellHealth v, color = cellColor v,
                     coordinates =
                       [(cellMinLng, cellMinLat),
                        (cellMaxLng, cellMinLat),
                        (cellMaxLng, cellMaxLat),
                        (cellMinLng, cellMaxLat),
                        (cellMinLng, cellMinLat)]\<rparr>)))"

definition generateGridFromMatrix :: "bbox \<Rightarrow> jsnum list list \<Rightarrow> js_error + grid_result" where
  "generateGridFromMatrix bbox matrix =
     (case forRange (\<lambda>i. forRange (\<lambda>j acc.
               case acc of (gridCells, ndviValues) \<Rightarrow>
                 (case gridCell bbox matrix i j of
                    Inl e \<Rightarrow> Inl e
                  | Inr f \<Rightarrow> Inr (gridCells @ [f], ndviValues @ [ndvi f]))) [0..<3])
             [0..<3] ([], []) of
        Inl e \<Rightarrow> Inl e
      | Inr (gridCells, ndviValues) \<Rightarrow>
          Inr \<lparr>grid = gridCells,
               avgNdvi = jdiv (reduceSum ndviValues) (Num (real (length ndviValues)))\<rparr>)"

section \<open>linearForecast\<close>

definition linearForecast :: "jsnum list \<Rightarrow> nat \<Rightarrow> jsnum list" where
  "linearForecast values days =
     (if length values < 2
      then replicate days (orElse (case values of [] \<Rightarrow> NaN | v # _ \<Rightarrow> v) (Num 0.5))
      else
        let n = length values;
            indices = [0..<n];
            sumX = foldl (\<lambda>a b. jadd a (Num (real b))) (Num 0) indices;
            sumY = foldl jadd (Num 0) values;
            sumXY = foldl (\<lambda>a i. jadd a (jmul (Num (real i)) (values ! i))) (Num 0) indices;
            sumX2 = foldl (\<lambda>a i. jadd a (Num (real i * real i))) (Num 0) indices;
            slope = jdiv (jsub (jmul (Num (real n)) sumXY) (jmul sumX sumY))
                         (jsub (jmul (Num (real n)) sumX2) (jmul sumX sumX));
            intercept = jdiv (jsub sumY (jmul slope sumX)) (Num (real n))
        in map (\<lambda>i. Math_min (Num 0.9)
                       (Math_max (Num 0.1) (jadd intercept (jmul slope (Num (real (n - 1 + i)))))))
               [1..<days + 1])"

section \<open>The handler of POST /api/analyze\<close>

subsection \<open>Bounding box\<close>

text \<open>
  The four running bounds start at \<open>Infinity\<close> and \<open>-Infinity\<close>; after the first vertex
  they are finite. Polygon coordinates arrive as JSON numbers, hence finite. The older
  variant of the server (\<open>tranka/server.js\<close>) computes the box with the same statements.
\<close>

datatype bound = PosInf | NegInf | Fin real

fun min_bound :: "bound \<Rightarrow> real \<Rightarrow> bound" where
  "min_bound PosInf x = Fin x"
| "min_bound NegInf x = NegInf"
| "min_bound (Fin m) x = Fin (min m x)"

fun max_bound :: "bound \<Rightarrow> real \<Rightarrow> bound" where
  "max_bound NegInf x = Fin x"
| "max_bound PosInf x = PosInf"
| "max_bound (Fin m) x = Fin (max m x)"

fun bboxStep :: "bound \<times> bound \<times> bound \<times> bound \<Rightarrow> real \<times> real \<Rightarrow> bound \<times> bound \<times> bound \<times> bound" where
  "bboxStep (minLng, maxLng, minLat, maxLat) (lng, lat) =
     (min_bound minLng lng, max_bound maxLng lng, min_bound minLat lat, max_bound maxLat lat)"

definition rawBounds :: "(real \<times> real) list \<Rightarrow> bound \<times> bound \<times> bound \<times> bound" where
  "rawBounds polygon = foldl bboxStep (PosInf, NegInf, PosInf, NegInf) polygon"

text \<open>
  The padded box \<open>[minLng, minLat, maxLng, maxLat]\<close>. \<open>None\<close> stands for the box with
  infinite bounds, which only an empty polygon has; the handler rejects that polygon
  before it gets here.
\<close>

definition paddedBBox :: "(real \<times> real) list \<Rightarrow> bbox option" where
  "paddedBBox polygon =
     (case rawBounds polygon of
        (Fin minLng, Fin maxLng, Fin minLat, Fin maxLat) \<Rightarrow>
          (let lngPad = (maxLng - minLng) * 0.1;
               latPad = (maxLat - minLat) * 0.1
           in Some (minLng - lngPad, minLat - latPad, maxLng + lngPad, maxLat + latPad))
      | _ \<Rightarrow> None)"

subsection \<open>Imagery acquisition, as the handler sees it\<close>

datatype token_outcome = TokenReturned | TokenThrows

text \<open>\<open>Tiff width height data\<close>: the decoded single-band image.\<close>

datatype tiff_outcome = TiffThrows | Tiff nat nat "jsnum list"

datatype process_outcome = FetchThrows | ResponseNotOk | ResponseOk tiff_outcome

record environment =
  getAccessToken :: token_outcome
  processApi :: process_outcome
  random :: "nat \<Rightarrow> real"

record request =
  polygon :: "(real \<times> real) list option"
  period :: int

definition noData :: "jsnum \<Rightarrow> jsnum" where
  "noData val = (if jlt val (Num (- 1)) \<or> jgt val (Num 1) then NaN else val)"

definition rasterRows :: "nat \<Rightarrow> nat \<Rightarrow> jsnum list \<Rightarrow> jsnum list list" where
  "rasterRows width height data =
     map (\<lambda>y. map (\<lambda>x. noData (if y * width + x < length data then data ! (y * width + x) else NaN))
                [0..<width])
         [0..<height]"

text \<open>
  What the inner \<open>try\<close> block leaves behind: \<open>usingRealData\<close>, \<open>ndviMatrix\<close> (or null)
  and \<open>avgNdvi\<close> (or undefined).
\<close>

definition acquire :: "process_outcome \<Rightarrow> bool \<times> jsnum list list option \<times> jsnum option" where
  "acquire p =
     (case p of
        FetchThrows \<Rightarrow> (False, None, None)
      | ResponseNotOk \<Rightarrow> (False, None, None)
      | ResponseOk TiffThrows \<Rightarrow> (False, None, None)
      | ResponseOk (Tiff width height data) \<Rightarrow>
          (let ndviMatrix = rasterRows width height data;
               validValues = filter (\<lambda>v. \<not> isNaN v) (concat ndviMatrix)
           in if length validValues = 0 then (False, Some ndviMatrix, None)
              else (True, Some ndviMatrix,
                    Some (jdiv (reduceSum validValues) (Num (real (length validValues)))))))"

subsection \<open>Time series\<close>

text \<open>
  \<open>for (let i = period; i >= 0; i--)\<close>, with \<open>k\<close> counting the calls of
  \<open>Math.random()\<close> made so far; the period is an integer number of days. The loop of
  the fully synthetic series is the same in both variants of the server.
\<close>

function seriesLoop :: "(int \<Rightarrow> nat \<Rightarrow> jsnum) \<Rightarrow> int \<Rightarrow> nat \<Rightarrow> jsnum list" where
  "seriesLoop f i k = (if i \<ge> 0 then f i k # seriesLoop f (i - 1) (k + 1) else [])"
  by pat_completeness auto
termination
  by (relation "measure (\<lambda>(f, i, k). nat (i + 1))") auto

declare seriesLoop.simps [simp del]

definition anchoredValue :: "jsnum \<Rightarrow> (nat \<Rightarrow> real) \<Rightarrow> int \<Rightarrow> nat \<Rightarrow> jsnum" where
  "anchoredValue avg rnd i k =
     Math_min (Num 0.9) (Math_max (Num 0.1)
       (jadd (jadd avg (Num (sin (real_of_int i / 5) * 0.05))) (Num (rnd k * 0.02 - 0.01))))"

definition syntheticValue :: "(nat \<Rightarrow> real) \<Rightarrow> int \<Rightarrow> nat \<Rightarrow> jsnum" where
  "syntheticValue rnd i k = Num (0.5 + sin (real_of_int i / 10) * 0.2 + rnd k * 0.1)"

definition syntheticSeries :: "(nat \<Rightarrow> real) \<Rightarrow> int \<Rightarrow> jsnum list" where
  "syntheticSeries rnd p = seriesLoop (syntheticValue rnd) p 0"

definition mean :: "jsnum list \<Rightarrow> jsnum" where
  "mean xs = jdiv (reduceSum xs) (Num (real (length xs)))"

text \<open>\<open>xs.slice(-5)\<close>\<close>

definition slice_last5 :: "'a list \<Rightarrow> 'a list" where
  "slice_last5 xs = drop (length xs - 5) xs"

subsection \<open>Overall health, stress zones, recommendation\<close>

datatype overall_health = Otlichnoe | Horoshee | Srednee | Plohoe | Kriticheskoe

definition overallHealth :: "jsnum \<Rightarrow> overall_health" where
  "overallHealth avg =
     (if jge avg (Num 0.7) then Otlichnoe
      else if jge avg (Num 0.55) then Horoshee
      else if jge avg (Num 0.4) then Srednee
      else if jge avg (Num 0.25) then Plohoe
      else Kriticheskoe)"

definition stressFeatures :: "feature list \<Rightarrow> feature list" where
  "stressFeatures features = filter (\<lambda>f. jlt (ndvi f) (Num 0.3)) features"

definition stressPercent :: "feature list \<Rightarrow> jsnum" where
  "stressPercent features =
     jmul (jdiv (Num (real (length (stressFeatures features)))) (Num (real (length features))))
          (Num 100)"

text \<open>
  The recommendation is one of three messages, with a second line about stress zones
  when more than 20 percent of the cells are stressed. The digits that \<open>toFixed\<close> prints
  into the text are left out.
\<close>

datatype advice = PlannedFertilizing | Inspection | UrgentIrrigation

definition recommend :: "jsnum \<Rightarrow> jsnum \<Rightarrow> advice \<times> bool" where
  "recommend avg percent =
     (if jgt avg (Num 0.6) then PlannedFertilizing
      else if jgt avg (Num 0.4) then Inspection
      else UrgentIrrigation,
      jgt percent (Num 20))"

subsection \<open>The response\<close>

datatype http_error = Status400 | Status500

datatype provenance = RealData | TestData

record analysis =
  avg_ndvi :: jsnum
  summary_health :: overall_health
  stress_percent :: jsnum
  center :: "real \<times> real"
  recommendation :: "advice \<times> bool"
  health_grid :: "feature list"
  stress_zones :: "feature list"
  time_series :: "jsnum list"
  forecast :: "jsnum list"
  data_source :: provenance

text \<open>
  The synthetic grid of the handler: the mean with nine fixed offsets.
\<close>

definition testMatrix :: "jsnum \<Rightarrow> jsnum list list" where
  "testMatrix avg =
     [[jadd avg (Num 0.1), jsub avg (Num 0.05), jadd avg (Num 0.02)],
      [jsub avg (Num 0.03), jadd avg (Num 0.07), jsub avg (Num 0.08)],
      [jadd avg (Num 0.04), jsub avg (Num 0.02), jadd avg (Num 0.05)]]"

text \<open>
  The part of the handler after the access token has been obtained. An exception that
  escapes to the outer \<open>catch\<close> is \<open>Inl\<close>; date labels are left out.
\<close>

definition analyzeWithToken :: "environment \<Rightarrow> bbox \<Rightarrow> int \<Rightarrow> js_error + analysis" where
  "analyzeWithToken env bbox p =
     (case bbox of (minLng, minLat, maxLng, maxLat) \<Rightarrow>
      (case acquire (processApi env) of (usingRealData, ndviMatrix, avg0) \<Rightarrow>
        (let centerLat = (minLat + maxLat) / 2;
             centerLng = (minLng + maxLng) / 2;
             series = (case (usingRealData, avg0) of
                         (True, Some a) \<Rightarrow> (seriesLoop (anchoredValue a (random env)) p 0, a)
                       | _ \<Rightarrow> (syntheticSeries (random env) p,
                               mean (syntheticSeries (random env) p)));
             values = fst series;
             avg1 = snd series;
             forecastValues = linearForecast (slice_last5 values) 7;
             gridResult = (case (usingRealData, ndviMatrix) of
                             (True, Some m) \<Rightarrow>
                               (case aggregateTo3x3 m of
                                  Inl e \<Rightarrow> Inl e
                                | Inr matrix3x3 \<Rightarrow>
                                    (case generateGridFromMatrix bbox matrix3x3 of
                                       Inl e \<Rightarrow> Inl e
                                     | Inr r \<Rightarrow> Inr (grid r, avgNdvi r)))
                           | _ \<Rightarrow>
                               (case generateGridFromMatrix bbox (testMatrix avg1) of
                                  Inl e \<Rightarrow> Inl e
                                | Inr r \<Rightarrow> Inr (grid r, avg1)))
         in (case gridResult of
               Inl e \<Rightarrow> Inl e
             | Inr (features, avg) \<Rightarrow>
                 Inr \<lparr>avg_ndvi = avg,
                      summary_health = overallHealth avg,
                      stress_percent = stressPercent features,
                      center = (centerLat, centerLng),
                      recommendation = recommend avg (stressPercent features),
                      health_grid = features,
                      stress_zones = filter (\<lambda>f. jlt (ndvi f) (Num 0.3)) features,
                      time_series = values,
                      forecast = forecastValues,
                      data_source = (if usingRealData then RealData else TestData)\<rparr>))))"

definition analyze :: "environment \<Rightarrow> request \<Rightarrow> http_error + analysis" where
  "analyze env req =
     (case polygon req of
        None \<Rightarrow> Inl Status400
      | Some poly \<Rightarrow>
          if length poly < 3 then Inl Status400
          else (case paddedBBox poly of
                  None \<Rightarrow> Inl Status500
                | Some bbox \<Rightarrow>
                    (case getAccessToken env of
                       TokenThrows \<Rightarrow> Inl Status500
                     | TokenReturned \<Rightarrow>
                         (case analyzeWithToken env bbox (period req) of
                            Inl e \<Rightarrow> Inl Status500
                          | Inr result \<Rightarrow> Inr result))))"

section \<open>The aggregation as the specification words it\<close>

text \<open>
  Written from the specification, to compare with \<open>aggregateTo3x3\<close>: for a raster of
  width \<open>W\<close> and height \<open>H\<close>, block \<open>(i, j)\<close> holds the pixels with
  \<open>floor(i W / 3) \<le> x < floor((i + 1) W / 3)\<close> and
  \<open>floor(j H / 3) \<le> y < floor((j + 1) H / 3)\<close>; its value is the mean of the pixels that
  are not no-data, and 0 when there is none.
\<close>

definition specBound :: "nat \<Rightarrow> nat \<Rightarrow> nat" where
  "specBound W k = nat \<lfloor>real k * real W / 3\<rfloor>"

definition blockPixels :: "nat \<Rightarrow> nat \<Rightarrow> jsnum list list \<Rightarrow> nat \<Rightarrow> nat \<Rightarrow> jsnum list" where
  "blockPixels W H rows i j =
     concat (map (\<lambda>x. map (\<lambda>y. rows ! y ! x) [specBound H j..<specBound H (j + 1)])
                 [specBound W i..<specBound W (i + 1)])"

fun validOnly :: "jsnum list \<Rightarrow> real list" where
  "validOnly [] = []"
| "validOnly (NaN # vs) = validOnly vs"
| "validOnly (Num v # vs) = v # validOnly vs"

definition meanOrZero :: "real list \<Rightarrow> jsnum" where
  "meanOrZero vs = (if vs = [] then Num 0 else Num (sum_list vs / real (length vs)))"

definition specCell :: "nat \<Rightarrow> nat \<Rightarrow> jsnum list list \<Rightarrow> nat \<Rightarrow> nat \<Rightarrow> jsnum" where
  "specCell W H rows i j = meanOrZero (validOnly (blockPixels W H rows i j))"

section \<open>The regression as the specification words it\<close>

text \<open>
  Written from the specification, to compare with \<open>linearForecast\<close>: least squares over
  the indices \<open>0 .. n - 1\<close>, slope \<open>(n Sxy - Sx Sy) / (n Sxx - Sx Sx)\<close>, intercept
  \<open>(Sy - slope Sx) / n\<close>, and the clamp to \<open>[0.1, 0.9]\<close>.
\<close>

definition olsSlope :: "real list \<Rightarrow> real" where
  "olsSlope ys =
     (let n = real (length ys);
          sx = sum_list (map real [0..<length ys]);
          sy = sum_list ys;
          sxy = sum_list (map (\<lambda>i. real i * ys ! i) [0..<length ys]);
          sx2 = sum_list (map (\<lambda>i. real i * real i) [0..<length ys])
      in (n * sxy - sx * sy) / (n * sx2 - sx * sx))"

definition olsIntercept :: "real list \<Rightarrow> real" where
  "olsIntercept ys =
     (sum_list ys - olsSlope ys * sum_list (map real [0..<length ys])) / real (length ys)"

definition clamp :: "real \<Rightarrow> real" where
  "clamp v = min 0.9 (max 0.1 v)"

section \<open>The bounding box as the specification words it\<close>

text \<open>
  Written from the specification: the raw bounds are the per-axis minimum and maximum
  of the vertices, that is, bounds of every vertex that some vertex attains.
\<close>

definition isBounds :: "(real \<times> real) list \<Rightarrow> real \<Rightarrow> real \<Rightarrow> real \<Rightarrow> real \<Rightarrow> bool" where
  "isBounds ps lo_x hi_x lo_y hi_y =
     (list_all (\<lambda>p. lo_x \<le> fst p \<and> fst p \<le> hi_x \<and> lo_y \<le> snd p \<and> snd p \<le> hi_y) ps \<and>
      lo_x \<in> fst ` set ps \<and> hi_x \<in> fst ` set ps \<and> lo_y \<in> snd ` set ps \<and> hi_y \<in> snd ` set ps)"

section \<open>Label correspondence\<close>

text \<open>The overall label that names the same bucket as a per-cell label.\<close>

fun overallOf :: "cell_health \<Rightarrow> overall_health" where
  "overallOf Otlichno = Otlichnoe"
| "overallOf Horosho = Horoshee"
| "overallOf Sredne = Srednee"
| "overallOf Ploho = Plohoe"
| "overallOf Kritichno = Kriticheskoe"

section \<open>A grid cell as the specification words it\<close>

text \<open>
  Written from the specification: cell \<open>(i, j)\<close> carries the given NDVI value with its
  label and colour, and its ring runs from \<open>(minLng + i stepX, minLat + j stepY)\<close> to the
  right, up, left and back to the start.
\<close>

definition cellAt :: "bbox \<Rightarrow> jsnum \<Rightarrow> nat \<Rightarrow> nat \<Rightarrow> feature" where
  "cellAt bbox v i j =
     (case bbox of (minLng, minLat, maxLng, maxLat) \<Rightarrow>
        \<lparr>ndvi = v, health = cellHealth v, color = cellColor v,
         coordinates =
           [(minLng + real i * ((maxLng - minLng) / 3), minLat + real j * ((maxLat - minLat) / 3)),
            (minLng + (real i + 1) * ((maxLng - minLng) / 3), minLat + real j * ((maxLat - minLat) / 3)),
            (minLng + (real i + 1) * ((maxLng - minLng) / 3), minLat + (real j + 1) * ((maxLat - minLat) / 3)),
            (minLng + real i * ((maxLng - minLng) / 3), minLat + (real j + 1) * ((maxLat - minLat) / 3)),
            (minLng + real i * ((maxLng - minLng) / 3), minLat + real j * ((maxLat - minLat) / 3))]\<rparr>)"

section \<open>Properties of aggregateTo3x3\<close>

lemma validOnly_append: "validOnly (a @ b) = validOnly a @ validOnly b"
  by (induction a rule: validOnly.induct) auto

lemma inner_loop:
  assumes "x < 100" "\<forall>y\<in>set ys. y < 100 \<and> y < length rows \<and> x < length (rows ! y)"
  shows "forRange (blockBody rows x) ys (Num s, c) =
         Inr (Num (s + sum_list (validOnly (map (\<lambda>y. rows ! y ! x) ys))),
              c + length (validOnly (map (\<lambda>y. rows ! y ! x) ys)))"
  using assms
proof (induction ys arbitrary: s c)
  case Nil
  then show ?case by simp
next
  case (Cons y ys)
  then show ?case
    by (cases "rows ! y ! x") (simp_all add: blockBody_def at2_def add.assoc)
qed

lemma outer_loop:
  assumes "\<forall>x\<in>set xs. x < 100 \<and> (\<forall>y\<in>set ys. y < 100 \<and> y < length rows \<and> x < length (rows ! y))"
  shows "forRange (\<lambda>x. forRange (blockBody rows x) ys) xs (Num s, c) =
         Inr (Num (s + sum_list (validOnly (concat (map (\<lambda>x. map (\<lambda>y. rows ! y ! x) ys) xs)))),
              c + length (validOnly (concat (map (\<lambda>x. map (\<lambda>y. rows ! y ! x) ys) xs))))"
  using assms
proof (induction xs arbitrary: s c)
  case Nil
  then show ?case by simp
next
  case (Cons x xs)
  then show ?case
    by (simp add: inner_loop validOnly_append add.assoc)
qed


lemma block_general:
  assumes "xe \<le> 100" "ye \<le> 100" "length rows = 100" "\<forall>r\<in>set rows. length r = 100"
  shows "(case forRange (\<lambda>x. forRange (blockBody rows x) [ys..<ye]) [xs..<xe] (Num 0, 0) of
            Inl e \<Rightarrow> Inl e
          | Inr (acc_sum, count) \<Rightarrow>
              Inr (if count > 0 then jdiv acc_sum (Num (real count)) else Num 0)) =
         Inr (meanOrZero (validOnly (concat (map (\<lambda>x. map (\<lambda>y. rows ! y ! x) [ys..<ye]) [xs..<xe]))))"
proof -
  have pre: "\<forall>x\<in>set [xs..<xe]. x < 100 \<and>
               (\<forall>y\<in>set [ys..<ye]. y < 100 \<and> y < length rows \<and> x < length (rows ! y))"
    using assms by auto
  show ?thesis
    by (simp add: outer_loop [OF pre] meanOrZero_def)
qed

lemma blockMean_spec:
  assumes "length rows = 100" "\<forall>r\<in>set rows. length r = 100" "i < 3" "j < 3"
  shows "blockMean rows i j = Inr (specCell 100 100 rows i j)"
proof -
  have i: "i = 0 \<or> i = 1 \<or> i = 2" using assms(3) by arith
  have j: "j = 0 \<or> j = 1 \<or> j = 2" using assms(4) by arith
  have cb: "nat \<lfloor>real i * blockSize\<rfloor> = specBound 100 i"
           "nat \<lfloor>(real i + 1) * blockSize\<rfloor> = specBound 100 (i + 1)"
           "nat \<lfloor>real j * blockSize\<rfloor> = specBound 100 j"
           "nat \<lfloor>(real j + 1) * blockSize\<rfloor> = specBound 100 (j + 1)"
    by (simp_all add: blockSize_def specBound_def algebra_simps)
  have le: "specBound 100 (i + 1) \<le> 100" "specBound 100 (j + 1) \<le> 100"
    using i j by (auto simp: specBound_def)
  show ?thesis
    unfolding blockMean_def Let_def cb specCell_def blockPixels_def
    by (rule block_general [OF le assms(1,2)])
qed


lemma upt3: "[0..<3] = [0, 1, 2]"
  by (simp add: upt_rec)

lemma replicate3: "replicate 3 x = [x, x, x]"
  by (simp add: numeral_3_eq_3)

lemma aggregate_spec:
  assumes "length rows = 100" "\<forall>r\<in>set rows. length r = 100"
  shows "aggregateTo3x3 rows =
         Inr [[specCell 100 100 rows 0 0, specCell 100 100 rows 1 0, specCell 100 100 rows 2 0],
              [specCell 100 100 rows 0 1, specCell 100 100 rows 1 1, specCell 100 100 rows 2 1],
              [specCell 100 100 rows 0 2, specCell 100 100 rows 1 2, specCell 100 100 rows 2 2]]"
  unfolding aggregateTo3x3_def upt3 replicate3
  by (simp add: blockMean_spec [OF assms])




lemma mean_bounds:
  fixes vs :: "real list"
  assumes "vs \<noteq> []" "\<forall>v\<in>set vs. a \<le> v \<and> v \<le> b"
  shows "a \<le> sum_list vs / real (length vs) \<and> sum_list vs / real (length vs) \<le> b"
proof -
  have up: "sum_list vs \<le> real (length vs) * b"
    using assms(2) by (induction vs) (auto simp: algebra_simps)
  have lo: "real (length vs) * a \<le> sum_list vs"
    using assms(2) by (induction vs) (auto simp: algebra_simps)
  have pos: "0 < real (length vs)" using assms(1) by simp
  show ?thesis
    using up lo pos by (simp add: pos_le_divide_eq pos_divide_le_eq mult.commute)
qed

lemma validOnly_set: "v \<in> set (validOnly vs) \<Longrightarrow> Num v \<in> set vs"
  by (induction vs rule: validOnly.induct) auto


lemma specCell_in_range:
  assumes "length rows = 100"
    "\<forall>r\<in>set rows. length r = 100 \<and> (\<forall>v\<in>set r. \<forall>a. v = Num a \<longrightarrow> - 1 \<le> a \<and> a \<le> 1)"
    "i < 3" "j < 3"
  shows "\<exists>a. specCell 100 100 rows i j = Num a \<and> - 1 \<le> a \<and> a \<le> 1"
proof -
  have i: "i = 0 \<or> i = 1 \<or> i = 2" using assms(3) by arith
  have j: "j = 0 \<or> j = 1 \<or> j = 2" using assms(4) by arith
  have le: "specBound 100 (i + 1) \<le> 100" "specBound 100 (j + 1) \<le> 100"
    using i j by (auto simp: specBound_def)
  have rng: "- 1 \<le> a \<and> a \<le> 1" if "y < 100" "x < 100" "rows ! y ! x = Num a" for x y a
  proof -
    have "rows ! y \<in> set rows" using that(1) assms(1) by simp
    then have "length (rows ! y) = 100"
      "\<forall>v\<in>set (rows ! y). \<forall>a. v = Num a \<longrightarrow> - 1 \<le> a \<and> a \<le> 1"
      using assms(2) by auto
    then show ?thesis using that(2,3) by (metis nth_mem)
  qed
  have px: "\<forall>v\<in>set (blockPixels 100 100 rows i j). \<forall>a. v = Num a \<longrightarrow> - 1 \<le> a \<and> a \<le> 1"
  proof (intro ballI allI impI)
    fix v a
    assume "v \<in> set (blockPixels 100 100 rows i j)" "v = Num a"
    then obtain x y where "x < specBound 100 (i + 1)" "y < specBound 100 (j + 1)"
      "rows ! y ! x = Num a"
      by (auto simp: blockPixels_def)
    then show "- 1 \<le> a \<and> a \<le> 1"
      using le rng [of y x a] by simp
  qed
  have all: "\<forall>a\<in>set (validOnly (blockPixels 100 100 rows i j)). - 1 \<le> a \<and> a \<le> 1"
    using px validOnly_set by blast
  show ?thesis
  proof (cases "validOnly (blockPixels 100 100 rows i j) = []")
    case True
    then show ?thesis by (simp add: specCell_def meanOrZero_def)
  next
    case False
    from mean_bounds [OF False all] show ?thesis
      using False by (simp add: specCell_def meanOrZero_def)
  qed
qed




text \<open>
  Claim C10: for every 100 x 100 raster whose entries other than \<open>NaN\<close> lie in
  \<open>[-1, 1]\<close>, every cell of the matrix returned by \<open>aggregateTo3x3\<close> is a number (not
  \<open>NaN\<close>) in \<open>[-1, 1]\<close>.
\<close>

theorem aggregateTo3x3_in_range:
  assumes "length rows = 100"
    "\<forall>r\<in>set rows. length r = 100 \<and> (\<forall>v\<in>set r. \<forall>a. v = Num a \<longrightarrow> - 1 \<le> a \<and> a \<le> 1)"
  shows "\<exists>m. aggregateTo3x3 rows = Inr m \<and>
           (\<forall>j<3. \<forall>i<3. \<exists>a. m ! j ! i = Num a \<and> - 1 \<le> a \<and> a \<le> 1)"
proof -
  have lt3: "k = 0 \<or> k = 1 \<or> k = 2" if "k < 3" for k :: nat using that by arith
  have len: "\<forall>r\<in>set rows. length r = 100" using assms(2) by simp
  note c = specCell_in_range [OF assms]
  show ?thesis
    unfolding aggregate_spec [OF assms(1) len]
    using c [of 0 0] c [of 1 0] c [of 2 0] c [of 0 1] c [of 1 1] c [of 2 1]
      c [of 0 2] c [of 1 2] c [of 2 2]
    by (auto dest!: lt3)
qed

theorem aggregateTo3x3_in_range_witness:
  "\<exists>m. aggregateTo3x3 (replicate 100 (replicate 100 (Num (1 / 2)))) = Inr m \<and>
       (\<exists>a. m ! 1 ! 2 = Num a \<and> - 1 \<le> a \<and> a \<le> 1)"
  using aggregateTo3x3_in_range [of "replicate 100 (replicate 100 (Num (1 / 2)))"]
  by auto


section \<open>Properties of linearForecast\<close>

lemma foldl_jadd_Num:
  "foldl (\<lambda>a b. jadd a (Num (g b))) (Num s) xs = Num (s + sum_list (map g xs))"
  by (induction xs arbitrary: s) (simp_all add: add.assoc)

lemma foldl_jadd_map_Num:
  "foldl jadd (Num s) (map Num xs) = Num (s + sum_list xs)"
  by (induction xs arbitrary: s) (simp_all add: add.assoc)

lemma sum_idx: "sum_list (map real [0..<n]) = real n * (real n - 1) / 2"
  by (induction n) (simp_all add: algebra_simps)

lemma sum_idx2: "sum_list (map (\<lambda>i. real i * real i) [0..<n]) = (real n - 1) * real n * (2 * real n - 1) / 6"
  by (induction n) (simp_all add: algebra_simps)

lemma denom_pos:
  assumes "2 \<le> n"
  shows "real n * ((real n - 1) * real n * (2 * real n - 1) / 6) -
         (real n * (real n - 1) / 2) * (real n * (real n - 1) / 2) =
         real n * real n * (real n - 1) * (real n + 1) / 12"
  by (simp add: field_simps)

lemma denom_ne:
  assumes "2 \<le> n"
  shows "real n * sum_list (map (\<lambda>i. real i * real i) [0..<n]) -
         sum_list (map real [0..<n]) * sum_list (map real [0..<n]) \<noteq> 0"
proof -
  have n: "2 \<le> real n" using assms by simp
  have eq: "real n * sum_list (map (\<lambda>i. real i * real i) [0..<n]) -
         sum_list (map real [0..<n]) * sum_list (map real [0..<n]) =
         real n * real n * (real n - 1) * (real n + 1) / 12"
    unfolding sum_idx sum_idx2 by (rule denom_pos [OF assms])
  have pos: "0 < real n * real n * (real n - 1) * (real n + 1) / 12"
    using n by (intro divide_pos_pos mult_pos_pos) auto
  show ?thesis using eq pos by linarith
qed

lemma linearForecast_Num:
  assumes "2 \<le> length xs"
  shows "linearForecast (map Num xs) days =
           map (\<lambda>h. Num (clamp (olsIntercept xs + olsSlope xs * real (length xs - 1 + h))))
               [1..<days + 1]"
proof -
  let ?n = "length xs"
  have sx: "foldl (\<lambda>a b. jadd a (Num (real b))) (Num 0) [0..<?n] =
            Num (sum_list (map real [0..<?n]))"
    by (simp add: foldl_jadd_Num)
  have sx2: "foldl (\<lambda>a i. jadd a (Num (real i * real i))) (Num 0) [0..<?n] =
            Num (sum_list (map (\<lambda>i. real i * real i) [0..<?n]))"
    by (simp add: foldl_jadd_Num)
  have sy: "foldl jadd (Num 0) (map Num xs) = Num (sum_list xs)"
    by (simp add: foldl_jadd_map_Num)
  have sxy: "foldl (\<lambda>a i. jadd a (jmul (Num (real i)) (map Num xs ! i))) (Num 0) [0..<?n] =
             Num (sum_list (map (\<lambda>i. real i * xs ! i) [0..<?n]))"
  proof -
    have "foldl (\<lambda>a i. jadd a (jmul (Num (real i)) (map Num xs ! i))) (Num s) is =
          Num (s + sum_list (map (\<lambda>i. real i * xs ! i) is))"
      if "\<forall>i\<in>set is. i < ?n" for s "is"
      using that by (induction "is" arbitrary: s) (simp_all add: add.assoc)
    from this [of "[0..<?n]" 0] show ?thesis by simp
  qed
  have slope: "jdiv (jsub (jmul (Num (real ?n)) (Num (sum_list (map (\<lambda>i. real i * xs ! i) [0..<?n]))))
                      (jmul (Num (sum_list (map real [0..<?n]))) (Num (sum_list xs))))
                 (jsub (jmul (Num (real ?n)) (Num (sum_list (map (\<lambda>i. real i * real i) [0..<?n]))))
                      (jmul (Num (sum_list (map real [0..<?n]))) (Num (sum_list (map real [0..<?n])))))
               = Num (olsSlope xs)"
    using denom_ne [OF assms] by (simp add: olsSlope_def Let_def)
  have icpt: "jdiv (jsub (Num (sum_list xs)) (jmul (Num (olsSlope xs)) (Num (sum_list (map real [0..<?n])))))
                 (Num (real ?n)) = Num (olsIntercept xs)"
    using assms by (auto simp: olsIntercept_def)
  have big: "\<not> length (map Num xs) < 2" using assms by simp
  show ?thesis
    unfolding linearForecast_def Let_def if_not_P [OF big]
    by (simp only: length_map sx sx2 sy sxy slope icpt) (simp add: clamp_def)
qed

lemma clamp_range: "0.1 \<le> clamp v \<and> clamp v \<le> 0.9"
  by (simp add: clamp_def)


lemma replicate_in_range:
  "0.1 \<le> c \<Longrightarrow> c \<le> 0.9 \<Longrightarrow>
   \<forall>v\<in>set (replicate n (Num c)). \<exists>r. v = Num r \<and> 0.1 \<le> r \<and> r \<le> 0.9"
  by auto

lemma forecast_more:
  assumes "2 \<le> length xs"
  shows "length (linearForecast (map Num xs) days) = days"
    "\<forall>v\<in>set (linearForecast (map Num xs) days). \<exists>r. v = Num r \<and> 0.1 \<le> r \<and> r \<le> 0.9"
    "\<forall>h<days. linearForecast (map Num xs) days ! h =
        Num (clamp (olsIntercept xs + olsSlope xs * real (length xs - 1 + (h + 1))))"
proof -
  show "length (linearForecast (map Num xs) days) = days"
    unfolding linearForecast_Num [OF assms] by simp
  show "\<forall>v\<in>set (linearForecast (map Num xs) days). \<exists>r. v = Num r \<and> 0.1 \<le> r \<and> r \<le> 0.9"
    unfolding linearForecast_Num [OF assms] using clamp_range by auto
  show "\<forall>h<days. linearForecast (map Num xs) days ! h =
        Num (clamp (olsIntercept xs + olsSlope xs * real (length xs - 1 + (h + 1))))"
  proof (intro allI impI)
    fix h assume h: "h < days"
    have u: "[1..<days + 1] ! h = 1 + h" using h by (intro nth_upt) simp
    have l: "h < length [1..<days + 1]" using h by simp
    show "linearForecast (map Num xs) days ! h =
        Num (clamp (olsIntercept xs + olsSlope xs * real (length xs - 1 + (h + 1))))"
      unfolding linearForecast_Num [OF assms] nth_map [OF l] u by (simp add: add.commute)
  qed
qed

lemma linearForecast_series:
  assumes "\<forall>v\<in>set xs. 0.1 \<le> v \<and> v \<le> 0.9"
  shows "length (linearForecast (map Num xs) days) = days \<and>
         (\<forall>v\<in>set (linearForecast (map Num xs) days). \<exists>r. v = Num r \<and> 0.1 \<le> r \<and> r \<le> 0.9) \<and>
         (2 \<le> length xs \<longrightarrow>
            (\<forall>h<days. linearForecast (map Num xs) days ! h =
               Num (clamp (olsIntercept xs + olsSlope xs * real (length xs - 1 + (h + 1))))))"
proof -
  consider (empty) "xs = []" | (one) x where "xs = [x]" | (more) "2 \<le> length xs"
    by (cases xs rule: list.exhaust; cases "tl xs") auto
  then show ?thesis
  proof cases
    case empty
    then have eq: "linearForecast (map Num xs) days = replicate days (Num 0.5)"
      by (simp add: linearForecast_def orElse_def)
    show ?thesis
      unfolding eq using replicate_in_range [of "0.5" days] empty by simp
  next
    case one
    then have x: "0.1 \<le> x" "x \<le> 0.9" using assms by simp_all
    then have eq: "linearForecast (map Num xs) days = replicate days (Num x)"
      using one by (simp add: linearForecast_def orElse_def)
    show ?thesis
      unfolding eq using replicate_in_range [OF x, of days] one by simp
  next
    case more
    show ?thesis
      using forecast_more [OF more, of days] by blast
  qed
qed

lemma forecast_in_range_aux:
  assumes "\<forall>v\<in>set xs. 0.1 \<le> v \<and> v \<le> 0.9"
  shows "\<forall>v\<in>set (linearForecast (map Num xs) days). \<exists>r. v = Num r \<and> 0.1 \<le> r \<and> r \<le> 0.9"
  using linearForecast_series [OF assms, of days] by blast

text \<open>
  Claim C2: for every time series, of any length (0 and 1 included), \<open>linearForecast\<close>
  returns one value per requested day and each value lies in \<open>[0.1, 0.9]\<close>; from two
  points on, the value for step \<open>h + 1\<close> is the clamped regression line at index
  \<open>n - 1 + (h + 1)\<close>. A time series is a list of points whose values lie in
  \<open>[0.1, 0.9]\<close>: this is what the handler passes, see \<open>analyzeWithToken_series\<close> below.
\<close>

theorem linearForecast_clamped:
  assumes "\<forall>v\<in>set xs. 0.1 \<le> v \<and> v \<le> 0.9"
  shows "length (linearForecast (map Num xs) days) = days \<and>
         (\<forall>v\<in>set (linearForecast (map Num xs) days). \<exists>r. v = Num r \<and> 0.1 \<le> r \<and> r \<le> 0.9) \<and>
         (2 \<le> length xs \<longrightarrow>
            (\<forall>h<days. linearForecast (map Num xs) days ! h =
               Num (clamp (olsIntercept xs + olsSlope xs * real (length xs - 1 + (h + 1))))))"
  using linearForecast_series [OF assms] .

theorem linearForecast_clamped_witness:
  "length (linearForecast (map Num [0.2, 0.4, 0.9]) 7) = 7 \<and>
   (\<exists>r. linearForecast (map Num [0.2, 0.4, 0.9]) 7 ! 6 = Num r \<and> 0.1 \<le> r \<and> r \<le> 0.9) \<and>
   (\<exists>r. linearForecast (map Num [0.5]) 7 ! 0 = Num r \<and> 0.1 \<le> r \<and> r \<le> 0.9) \<and>
   (\<exists>r. linearForecast (map Num []) 7 ! 0 = Num r \<and> 0.1 \<le> r \<and> r \<le> 0.9)"
proof -
  have h3: "\<forall>v\<in>set [0.2, 0.4, 0.9 :: real]. 0.1 \<le> v \<and> v \<le> 0.9" by simp
  have h1: "\<forall>v\<in>set [0.5 :: real]. 0.1 \<le> v \<and> v \<le> 0.9" by simp
  have h0: "\<forall>v\<in>set ([] :: real list). 0.1 \<le> v \<and> v \<le> 0.9" by simp
  note t3 = linearForecast_clamped [OF h3, of 7]
  note t1 = linearForecast_clamped [OF h1, of 7]
  note t0 = linearForecast_clamped [OF h0, of 7]
  have a: "linearForecast (map Num [0.2, 0.4, 0.9]) 7 ! 6 \<in> set (linearForecast (map Num [0.2, 0.4, 0.9]) 7)"
    using t3 by (intro nth_mem) simp
  have b: "linearForecast (map Num [0.5]) 7 ! 0 \<in> set (linearForecast (map Num [0.5]) 7)"
    using t1 by (intro nth_mem) simp
  have c: "linearForecast (map Num []) 7 ! 0 \<in> set (linearForecast (map Num []) 7)"
    using t0 by (intro nth_mem) simp
  show ?thesis
    using t3 t1 t0 a b c by blast
qed

text \<open>
  Claim C5: for every time series with fewer than 2 points, the forecast is constant
  over the 7 days: the last known value when the series has one point, and 0.5 when it
  is empty.
\<close>

theorem linearForecast_short_series:
  assumes "length xs < 2" "\<forall>v\<in>set xs. 0.1 \<le> v \<and> v \<le> 0.9"
  shows "linearForecast (map Num xs) 7 = replicate 7 (Num (if xs = [] then 0.5 else last xs))"
proof -
  consider (empty) "xs = []" | (one) x where "xs = [x]"
    using assms(1) by (cases xs rule: list.exhaust; cases "tl xs") auto
  then show ?thesis
  proof cases
    case empty
    then show ?thesis by (simp add: linearForecast_def orElse_def)
  next
    case one
    then have "x \<noteq> 0" using assms(2) by auto
    then show ?thesis using one by (simp add: linearForecast_def orElse_def)
  qed
qed

theorem linearForecast_short_series_witness:
  "linearForecast (map Num [0.3]) 7 = replicate 7 (Num 0.3) \<and>
   linearForecast (map Num []) 7 = replicate 7 (Num 0.5)"
  using linearForecast_short_series [of "[0.3]"] linearForecast_short_series [of "[]"]
  by simp

section \<open>Properties of the bounding box\<close>

lemma foldl_bboxStep_Fin:
  "\<exists>a' b' c' d'. foldl bboxStep (Fin a, Fin b, Fin c, Fin d) ps = (Fin a', Fin b', Fin c', Fin d') \<and>
     a' \<le> a \<and> b \<le> b' \<and> c' \<le> c \<and> d \<le> d' \<and>
     (\<forall>p\<in>set ps. a' \<le> fst p \<and> fst p \<le> b' \<and> c' \<le> snd p \<and> snd p \<le> d') \<and>
     a' \<in> insert a (fst ` set ps) \<and> b' \<in> insert b (fst ` set ps) \<and>
     c' \<in> insert c (snd ` set ps) \<and> d' \<in> insert d (snd ` set ps)"
proof (induction ps arbitrary: a b c d)
  case Nil
  then show ?case by simp
next
  case (Cons p ps)
  obtain x y where p: "p = (x, y)" by (cases p)
  from Cons.IH [of "min a x" "max b x" "min c y" "max d y"]
  obtain a' b' c' d' where
    f: "foldl bboxStep (Fin (min a x), Fin (max b x), Fin (min c y), Fin (max d y)) ps =
        (Fin a', Fin b', Fin c', Fin d')"
    and le: "a' \<le> min a x" "max b x \<le> b'" "c' \<le> min c y" "max d y \<le> d'"
    and all: "\<forall>p\<in>set ps. a' \<le> fst p \<and> fst p \<le> b' \<and> c' \<le> snd p \<and> snd p \<le> d'"
    and mem: "a' \<in> insert (min a x) (fst ` set ps)" "b' \<in> insert (max b x) (fst ` set ps)"
      "c' \<in> insert (min c y) (snd ` set ps)" "d' \<in> insert (max d y) (snd ` set ps)"
    by blast
  have m1: "a' \<in> insert a (fst ` set (p # ps))" using mem(1) p by (auto simp: min_def split: if_splits)
  have m2: "b' \<in> insert b (fst ` set (p # ps))" using mem(2) p by (auto simp: max_def split: if_splits)
  have m3: "c' \<in> insert c (snd ` set (p # ps))" using mem(3) p by (auto simp: min_def split: if_splits)
  have m4: "d' \<in> insert d (snd ` set (p # ps))" using mem(4) p by (auto simp: max_def split: if_splits)
  have b: "a' \<le> a" "b \<le> b'" "c' \<le> c" "d \<le> d'" "a' \<le> x" "x \<le> b'" "c' \<le> y" "y \<le> d'"
    using le by simp_all
  show ?case
    using f all m1 m2 m3 m4 b unfolding p by simp
qed

lemma rawBounds_nonempty:
  assumes "ps \<noteq> []"
  shows "\<exists>a b c d. rawBounds ps = (Fin a, Fin b, Fin c, Fin d) \<and> isBounds ps a b c d"
proof -
  obtain x y qs where ps: "ps = (x, y) # qs" using assms by (cases ps) auto
  from foldl_bboxStep_Fin [of x x y y qs]
  obtain a b c d where
    f: "foldl bboxStep (Fin x, Fin x, Fin y, Fin y) qs = (Fin a, Fin b, Fin c, Fin d)"
    and le: "a \<le> x" "x \<le> b" "c \<le> y" "y \<le> d"
    and all: "\<forall>p\<in>set qs. a \<le> fst p \<and> fst p \<le> b \<and> c \<le> snd p \<and> snd p \<le> d"
    and mem: "a \<in> insert x (fst ` set qs)" "b \<in> insert x (fst ` set qs)"
      "c \<in> insert y (snd ` set qs)" "d \<in> insert y (snd ` set qs)"
    by blast
  have "rawBounds ps = (Fin a, Fin b, Fin c, Fin d)"
    by (simp add: rawBounds_def ps f)
  moreover have "isBounds ps a b c d"
    using le all mem by (simp add: isBounds_def ps list_all_iff)
  ultimately show ?thesis by blast
qed

lemma paddedBBox_nonempty:
  assumes "ps \<noteq> []"
  shows "\<exists>a b c d. isBounds ps a b c d \<and>
           paddedBBox ps = Some (a - (b - a) * 0.1, c - (d - c) * 0.1,
                                 b + (b - a) * 0.1, d + (d - c) * 0.1)"
proof -
  from rawBounds_nonempty [OF assms]
  obtain a b c d where "rawBounds ps = (Fin a, Fin b, Fin c, Fin d)" "isBounds ps a b c d"
    by blast
  then show ?thesis
    by (auto simp: paddedBBox_def Let_def)
qed

text \<open>
  Claim C3, amended: for every polygon that has two vertices of different longitude and
  two vertices of different latitude, the box made of the per-axis minimum and maximum,
  each axis padded on both sides by 10 percent of its span, has \<open>minLng < maxLng\<close> and
  \<open>minLat < maxLat\<close>.
\<close>

theorem paddedBBox_proper:
  assumes "(lng1, lat1) \<in> set ps" "(lng2, lat2) \<in> set ps" "lng1 \<noteq> lng2"
    and "(lng3, lat3) \<in> set ps" "(lng4, lat4) \<in> set ps" "lat3 \<noteq> lat4"
  shows "\<exists>a b c d. isBounds ps a b c d \<and>
           paddedBBox ps = Some (a - (b - a) * 0.1, c - (d - c) * 0.1,
                                 b + (b - a) * 0.1, d + (d - c) * 0.1) \<and>
           a - (b - a) * 0.1 < b + (b - a) * 0.1 \<and>
           c - (d - c) * 0.1 < d + (d - c) * 0.1"
proof -
  have ne: "ps \<noteq> []" using assms(1) by auto
  from paddedBBox_nonempty [OF ne]
  obtain a b c d where bnd: "isBounds ps a b c d"
    and box: "paddedBBox ps = Some (a - (b - a) * 0.1, c - (d - c) * 0.1,
                                    b + (b - a) * 0.1, d + (d - c) * 0.1)"
    by blast
  have all: "\<forall>p\<in>set ps. a \<le> fst p \<and> fst p \<le> b \<and> c \<le> snd p \<and> snd p \<le> d"
    using bnd by (simp add: isBounds_def list_all_iff)
  have "a \<le> lng1" "lng1 \<le> b" "a \<le> lng2" "lng2 \<le> b"
    using all assms(1,2) by force+
  then have x: "a < b" using assms(3) by linarith
  have "c \<le> lat3" "lat3 \<le> d" "c \<le> lat4" "lat4 \<le> d"
    using all assms(4,5) by force+
  then have y: "c < d" using assms(6) by linarith
  have px: "a - (b - a) * 0.1 < b + (b - a) * 0.1"
    using x by (simp add: field_simps)
  have py: "c - (d - c) * 0.1 < d + (d - c) * 0.1"
    using y by (simp add: field_simps)
  show ?thesis
    using bnd box px py by blast
qed

theorem paddedBBox_proper_witness:
  "\<exists>minLng minLat maxLng maxLat.
     paddedBBox [(0, 0), (0, 1), (1, 1), (1, 0)] = Some (minLng, minLat, maxLng, maxLat) \<and>
     minLng < maxLng \<and> minLat < maxLat"
  using paddedBBox_proper [of 0 0 "[(0, 0), (0, 1), (1, 1), (1, 0)]" 1 1 0 0 1 1]
  by auto

text \<open>
  Three distinct vertices on one horizontal line: the latitude span is 0, so is its
  padding, and \<open>minLat = maxLat\<close>.
\<close>

theorem paddedBBox_collinear_counterexample:
  "length [(0, 0), (1, 0), (2, 0) :: real \<times> real] \<ge> 3 \<and>
   distinct [(0, 0), (1, 0), (2, 0) :: real \<times> real] \<and>
   paddedBBox [(0, 0), (1, 0), (2, 0)] = Some (- 0.2, 0, 2.2, 0)"
  by (simp add: paddedBBox_def rawBounds_def)

section \<open>Properties of the synthetic series\<close>

lemma seriesLoop_length: "- 1 \<le> i \<Longrightarrow> length (seriesLoop f i k) = nat (i + 1)"
proof (induction f i k rule: seriesLoop.induct)
  case (1 f i k)
  show ?case
  proof (cases "0 \<le> i")
    case True
    then have "length (seriesLoop f (i - 1) (k + 1)) = nat (i - 1 + 1)"
      using "1.IH" by simp
    then show ?thesis using True by (subst seriesLoop.simps) (simp add: nat_add_distrib)
  next
    case False
    then show ?thesis using "1.prems" by (subst seriesLoop.simps) simp
  qed
qed

lemma seriesLoop_nth:
  "j < nat (i + 1) \<Longrightarrow> seriesLoop f i k ! j = f (i - int j) (k + j)"
proof (induction f i k arbitrary: j rule: seriesLoop.induct)
  case (1 f i k)
  then have pos: "0 \<le> i" by simp
  show ?case
  proof (cases j)
    case 0
    then show ?thesis using pos by (subst seriesLoop.simps) simp
  next
    case (Suc j')
    then have "j' < nat (i - 1 + 1)" using "1.prems" by simp
    from "1.IH" [OF pos this] show ?thesis
      using pos Suc by (subst seriesLoop.simps) (simp add: algebra_simps)
  qed
qed

lemma clamp_id: "0.1 \<le> v \<Longrightarrow> v \<le> 0.9 \<Longrightarrow> clamp v = v"
  by (simp add: clamp_def)

text \<open>
  Claim C4: in fully synthetic mode with period \<open>p \<ge> 0\<close> and a random source with values
  in \<open>[0, 1)\<close>, the series has \<open>p + 1\<close> points, for \<open>i = p\<close> down to 0 in this order;
  the point for \<open>i\<close> is \<open>0.5 + 0.2 sin(i / 10)\<close> plus the noise term \<open>0.1 r\<close>, where \<open>r\<close> is
  the value drawn from the random source for that point, so the noise lies in
  \<open>[0, 0.1)\<close>; and the point is its own clamp to \<open>[0.1, 0.9]\<close>.
\<close>

theorem syntheticSeries_points:
  assumes "0 \<le> p" "\<forall>k. 0 \<le> rnd k \<and> rnd k < 1"
  shows "length (syntheticSeries rnd p) = nat p + 1 \<and>
         (\<forall>k\<le>nat p.
            syntheticSeries rnd p ! k =
              Num (0.5 + 0.2 * sin (real_of_int (p - int k) / 10) + 0.1 * rnd k) \<and>
            0 \<le> 0.1 * rnd k \<and> 0.1 * rnd k < 0.1 \<and>
            clamp (0.5 + 0.2 * sin (real_of_int (p - int k) / 10) + 0.1 * rnd k) =
              0.5 + 0.2 * sin (real_of_int (p - int k) / 10) + 0.1 * rnd k)"
proof -
  have len: "length (syntheticSeries rnd p) = nat p + 1"
    using assms(1) by (simp add: syntheticSeries_def seriesLoop_length nat_add_distrib)
  have pt: "syntheticSeries rnd p ! k =
              Num (0.5 + 0.2 * sin (real_of_int (p - int k) / 10) + 0.1 * rnd k) \<and>
            0 \<le> 0.1 * rnd k \<and> 0.1 * rnd k < 0.1 \<and>
            clamp (0.5 + 0.2 * sin (real_of_int (p - int k) / 10) + 0.1 * rnd k) =
              0.5 + 0.2 * sin (real_of_int (p - int k) / 10) + 0.1 * rnd k"
    if "k \<le> nat p" for k
  proof -
    let ?s = "sin (real_of_int (p - int k) / 10)"
    have k: "k < nat (p + 1)" using that assms(1) by simp
    have r: "0 \<le> rnd k" "rnd k < 1" using assms(2) by simp_all
    have s: "- 1 \<le> ?s" "?s \<le> 1" by simp_all
    have v: "syntheticSeries rnd p ! k = Num (0.5 + 0.2 * ?s + 0.1 * rnd k)"
      by (simp add: syntheticSeries_def seriesLoop_nth [OF k] syntheticValue_def)
    have n: "0 \<le> 0.1 * rnd k" "0.1 * rnd k < 0.1" using r by simp_all
    have "0.1 \<le> 0.5 + 0.2 * ?s + 0.1 * rnd k" "0.5 + 0.2 * ?s + 0.1 * rnd k \<le> 0.9"
      using s n by linarith+
    then have c: "clamp (0.5 + 0.2 * ?s + 0.1 * rnd k) = 0.5 + 0.2 * ?s + 0.1 * rnd k"
      by (rule clamp_id)
    show ?thesis using v n c by blast
  qed
  show ?thesis using len pt by blast
qed

theorem syntheticSeries_points_witness:
  "length (syntheticSeries (\<lambda>k. 1 / (real k + 2)) 30) = 31 \<and>
   syntheticSeries (\<lambda>k. 1 / (real k + 2)) 30 ! 0 = Num (0.5 + 0.2 * sin 3 + 0.1 * (1 / 2)) \<and>
   syntheticSeries (\<lambda>k. 1 / (real k + 2)) 30 ! 30 = Num (0.5 + 0.1 * (1 / 32))"
proof -
  have h: "\<forall>k. 0 \<le> 1 / (real k + 2) \<and> 1 / (real k + 2) < 1" by simp
  note t = syntheticSeries_points [of 30 "\<lambda>k. 1 / (real k + 2)", OF _ h]
  have l: "length (syntheticSeries (\<lambda>k. 1 / (real k + 2)) 30) = 31" using t by simp
  have a: "syntheticSeries (\<lambda>k. 1 / (real k + 2)) 30 ! 0 = Num (0.5 + 0.2 * sin 3 + 0.1 * (1 / 2))"
    using t [THEN conjunct2, rule_format, of 0] by simp
  have b: "syntheticSeries (\<lambda>k. 1 / (real k + 2)) 30 ! 30 = Num (0.5 + 0.1 * (1 / 32))"
    using t [THEN conjunct2, rule_format, of 30] by simp
  show ?thesis using l a b by blast
qed

section \<open>Properties of the classifier and of the stress zones\<close>

text \<open>
  Claim C7: for every real NDVI value the classifier gives one of five labels by the
  ladder \<open>\<ge> 0.70\<close>, \<open>\<ge> 0.55\<close>, \<open>\<ge> 0.40\<close>, \<open>\<ge> 0.25\<close>, else critical; each label is
  given on exactly its interval, the four boundary values fall into the higher bucket,
  and the overall label is cut at the same points as the per-cell label.
\<close>

theorem health_ladder:
  "(cellHealth (Num x) = Otlichno) = (0.7 \<le> x) \<and>
   (cellHealth (Num x) = Horosho) = (0.55 \<le> x \<and> x < 0.7) \<and>
   (cellHealth (Num x) = Sredne) = (0.4 \<le> x \<and> x < 0.55) \<and>
   (cellHealth (Num x) = Ploho) = (0.25 \<le> x \<and> x < 0.4) \<and>
   (cellHealth (Num x) = Kritichno) = (x < 0.25) \<and>
   cellHealth (Num 0.7) = Otlichno \<and> cellHealth (Num 0.55) = Horosho \<and>
   cellHealth (Num 0.4) = Sredne \<and> cellHealth (Num 0.25) = Ploho \<and>
   overallHealth (Num x) = overallOf (cellHealth (Num x))"
  by (simp add: cellHealth_def overallHealth_def)

lemma filter_length_le9:
  "length fs = 9 \<Longrightarrow> length (filter P fs) \<le> 9"
  using length_filter_le [of P fs] by simp

text \<open>
  Claim C9: for every grid of 9 cells, the stress zones are exactly the cells with
  \<open>ndvi < 0.30\<close>, a subset of the grid; the stress percentage is 100 times their number
  divided by 9, so it is a multiple of \<open>100 / 9\<close> and lies in \<open>[0, 100]\<close>.
\<close>

theorem stress_zones_percent:
  assumes "length features = 9"
  shows "set (stressFeatures features) = {f \<in> set features. \<exists>v. ndvi f = Num v \<and> v < 0.3} \<and>
         set (stressFeatures features) \<subseteq> set features \<and>
         length (stressFeatures features) \<le> 9 \<and>
         stressPercent features = Num (100 * real (length (stressFeatures features)) / 9) \<and>
         stressPercent features = Num (real (length (stressFeatures features)) * (100 / 9)) \<and>
         (\<exists>r. stressPercent features = Num r \<and> 0 \<le> r \<and> r \<le> 100)"
proof -
  have sel: "jlt v (Num 0.3) = (\<exists>r. v = Num r \<and> r < 0.3)" for v
    by (cases v) simp_all
  have s: "set (stressFeatures features) = {f \<in> set features. \<exists>v. ndvi f = Num v \<and> v < 0.3}"
    by (auto simp: stressFeatures_def sel)
  have le: "length (stressFeatures features) \<le> 9"
    unfolding stressFeatures_def using assms by (rule filter_length_le9)
  have p: "stressPercent features = Num (100 * real (length (stressFeatures features)) / 9)"
    using assms by (simp add: stressPercent_def)
  have r: "0 \<le> 100 * real (length (stressFeatures features)) / 9"
    "100 * real (length (stressFeatures features)) / 9 \<le> 100"
    using le by simp_all
  have sub: "set (stressFeatures features) \<subseteq> set features"
    by (simp add: stressFeatures_def)
  have p2: "stressPercent features = Num (real (length (stressFeatures features)) * (100 / 9))"
    unfolding p by simp
  have ex: "\<exists>r. stressPercent features = Num r \<and> 0 \<le> r \<and> r \<le> 100"
    using p r by blast
  show ?thesis
    by (intro conjI s sub le p p2 ex)
qed

theorem stress_zones_percent_witness:
  "stressPercent (map (\<lambda>v. \<lparr>ndvi = Num v, health = cellHealth (Num v), color = cellColor (Num v),
      coordinates = []\<rparr>) [0.1, 0.2, 0.3, 0.4, 0.5, 0.6, 0.7, 0.8, 0.9]) = Num (2 * (100 / 9))"
  using stress_zones_percent [of "map (\<lambda>v. \<lparr>ndvi = Num v, health = cellHealth (Num v),
      color = cellColor (Num v), coordinates = []\<rparr>) [0.1, 0.2, 0.3, 0.4, 0.5, 0.6, 0.7, 0.8, 0.9]"]
  by (simp add: stressFeatures_def)

section \<open>Properties of generateGridFromMatrix\<close>

lemma list3: "length xs = 3 \<Longrightarrow> \<exists>a b c. xs = [a, b, c]"
  by (auto simp: numeral_3_eq_3 length_Suc_conv)

lemma three_by_three:
  assumes "length m = 3" "\<forall>r\<in>set m. length r = 3"
  shows "\<exists>a b c d e f g h k. m = [[a, b, c], [d, e, f], [g, h, k]]"
proof -
  obtain r0 r1 r2 where m: "m = [r0, r1, r2]" using list3 [OF assms(1)] by blast
  have "length r0 = 3" "length r1 = 3" "length r2 = 3" using assms(2) m by simp_all
  then show ?thesis using m by (metis list3)
qed

lemma gridCell_explicit:
  "i < 3 \<Longrightarrow> j < 3 \<Longrightarrow>
   gridCell bbox [[a, b, c], [d, e, f], [g, h, k]] i j =
     Inr (cellAt bbox ([[a, b, c], [d, e, f], [g, h, k]] ! j ! i) i j)"
proof -
  assume "i < 3" "j < 3"
  then have "i = 0 \<or> i = 1 \<or> i = 2" "j = 0 \<or> j = 1 \<or> j = 2" by arith+
  then show ?thesis
    by (cases bbox) (auto simp: gridCell_def cellAt_def at2_def Let_def)
qed

lemma ndvi_cellAt: "ndvi (cellAt bbox v i j) = v"
  by (cases bbox) (simp add: cellAt_def)

lemma generateGrid_explicit:
  "generateGridFromMatrix bbox [[a, b, c], [d, e, f], [g, h, k]] =
     Inr \<lparr>grid = [cellAt bbox a 0 0, cellAt bbox d 0 1, cellAt bbox g 0 2,
                 cellAt bbox b 1 0, cellAt bbox e 1 1, cellAt bbox h 1 2,
                 cellAt bbox c 2 0, cellAt bbox f 2 1, cellAt bbox k 2 2],
          avgNdvi = jdiv (reduceSum [a, d, g, b, e, h, c, f, k]) (Num 9)\<rparr>"
  unfolding generateGridFromMatrix_def upt3
  by (simp add: gridCell_explicit ndvi_cellAt)


text \<open>
  Claim C8: for every bounding box and every 3 x 3 matrix of numbers,
  \<open>generateGridFromMatrix\<close> returns 9 cells; cell \<open>(i, j)\<close>, at position \<open>3 i + j\<close>, is
  the closed ring of 5 points with corners \<open>(minLng + i stepX, minLat + j stepY)\<close> and
  \<open>(minLng + (i + 1) stepX, minLat + (j + 1) stepY)\<close>, where
  \<open>stepX = (maxLng - minLng) / 3\<close> and \<open>stepY = (maxLat - minLat) / 3\<close>; its NDVI is
  \<open>matrix[j][i]\<close>; and the returned average is the mean of the 9 cell values.
\<close>

theorem generateGridFromMatrix_cells:
  assumes "length rs = 3" "\<forall>r\<in>set rs. length r = 3"
  shows "\<exists>g. generateGridFromMatrix (minLng, minLat, maxLng, maxLat) (map (map Num) rs) = Inr g \<and>
           length (grid g) = 9 \<and>
           (\<forall>i<3. \<forall>j<3.
              ndvi (grid g ! (3 * i + j)) = Num (rs ! j ! i) \<and>
              coordinates (grid g ! (3 * i + j)) =
                [(minLng + real i * ((maxLng - minLng) / 3), minLat + real j * ((maxLat - minLat) / 3)),
                 (minLng + (real i + 1) * ((maxLng - minLng) / 3), minLat + real j * ((maxLat - minLat) / 3)),
                 (minLng + (real i + 1) * ((maxLng - minLng) / 3), minLat + (real j + 1) * ((maxLat - minLat) / 3)),
                 (minLng + real i * ((maxLng - minLng) / 3), minLat + (real j + 1) * ((maxLat - minLat) / 3)),
                 (minLng + real i * ((maxLng - minLng) / 3), minLat + real j * ((maxLat - minLat) / 3))]) \<and>
           avgNdvi g = mean (map ndvi (grid g)) \<and>
           avgNdvi g = Num (sum_list (concat rs) / 9)"
proof -
  have lt3: "n = 0 \<or> n = 1 \<or> n = 2" if "n < 3" for n :: nat using that by arith
  obtain a b c d e f g h k where rs: "rs = [[a, b, c], [d, e, f], [g, h, k]]"
    using three_by_three [OF assms] by blast
  have m: "map (map Num) rs = [[Num a, Num b, Num c], [Num d, Num e, Num f], [Num g, Num h, Num k]]"
    by (simp add: rs)
  show ?thesis
    unfolding m generateGrid_explicit
    by (auto simp: rs cellAt_def reduceSum_def mean_def dest!: lt3)
qed

theorem generateGridFromMatrix_cells_witness:
  "\<exists>g. generateGridFromMatrix (0, 0, 3, 6) (map (map Num) [[0.1, 0.2, 0.3], [0.4, 0.5, 0.6], [0.7, 0.8, 0.9]]) = Inr g \<and>
       length (grid g) = 9 \<and>
       ndvi (grid g ! (3 * 2 + 1)) = Num 0.6 \<and>
       coordinates (grid g ! (3 * 2 + 1)) = [(2, 2), (3, 2), (3, 4), (2, 4), (2, 2)] \<and>
       avgNdvi g = Num 0.5"
proof -
  from generateGridFromMatrix_cells [of "[[0.1, 0.2, 0.3], [0.4, 0.5, 0.6], [0.7, 0.8, 0.9]]" 0 0 3 6]
  obtain g where g: "generateGridFromMatrix (0, 0, 3, 6)
        (map (map Num) [[0.1, 0.2, 0.3], [0.4, 0.5, 0.6], [0.7, 0.8, 0.9]]) = Inr g"
    "length (grid g) = 9"
    "\<forall>i<3. \<forall>j<3.
        ndvi (grid g ! (3 * i + j)) = Num ([[0.1, 0.2, 0.3], [0.4, 0.5, 0.6], [0.7, 0.8, 0.9]] ! j ! i) \<and>
        coordinates (grid g ! (3 * i + j)) =
          [(0 + real i * ((3 - 0) / 3), 0 + real j * ((6 - 0) / 3)),
           (0 + (real i + 1) * ((3 - 0) / 3), 0 + real j * ((6 - 0) / 3)),
           (0 + (real i + 1) * ((3 - 0) / 3), 0 + (real j + 1) * ((6 - 0) / 3)),
           (0 + real i * ((3 - 0) / 3), 0 + (real j + 1) * ((6 - 0) / 3)),
           (0 + real i * ((3 - 0) / 3), 0 + real j * ((6 - 0) / 3))]"
    "avgNdvi g = Num (sum_list (concat [[0.1, 0.2, 0.3], [0.4, 0.5, 0.6], [0.7, 0.8, 0.9]]) / 9)"
    by auto
  from g(3) [rule_format, of 2 1] have "ndvi (grid g ! (3 * 2 + 1)) = Num 0.6 \<and>
       coordinates (grid g ! (3 * 2 + 1)) = [(2, 2), (3, 2), (3, 4), (2, 4), (2, 2)]"
    by simp
  moreover have "avgNdvi g = Num 0.5" using g(4) by simp
  ultimately show ?thesis using g(1,2) by blast
qed

section \<open>Properties of the handler\<close>

lemma length_linearForecast: "length (linearForecast vs days) = days"
  by (simp add: linearForecast_def Let_def)

lemma generateGrid_testMatrix:
  "\<exists>g. generateGridFromMatrix bbox (testMatrix avg) = Inr g \<and> length (grid g) = 9"
  unfolding testMatrix_def generateGrid_explicit by simp

text \<open>
  When the Process API call fails in any way (the request throws, the response is not
  OK, the image cannot be decoded, or no pixel is valid), the handler falls back to the
  synthetic series and grid and answers normally.
\<close>

lemma analyzeWithToken_fallback:
  assumes "fst (acquire (processApi env)) = False"
  shows "\<exists>r. analyzeWithToken env bbox p = Inr r \<and> data_source r = TestData \<and>
           time_series r = syntheticSeries (random env) p \<and>
           length (forecast r) = 7 \<and> length (health_grid r) = 9 \<and>
           set (stress_zones r) \<subseteq> set (health_grid r)"
proof -
  obtain m a where acq: "acquire (processApi env) = (False, m, a)"
    using assms by (cases "acquire (processApi env)") auto
  obtain minLng minLat maxLng maxLat where b: "bbox = (minLng, minLat, maxLng, maxLat)"
    by (cases bbox)
  obtain g where g: "generateGridFromMatrix bbox (testMatrix (mean (syntheticSeries (random env) p))) = Inr g"
    "length (grid g) = 9"
    using generateGrid_testMatrix by blast
  show ?thesis
    using g unfolding b
    by (simp add: analyzeWithToken_def acq Let_def length_linearForecast)
qed

lemma analyze_fallback:
  assumes "getAccessToken env = TokenReturned" "polygon req = Some poly" "3 \<le> length poly"
    and "fst (acquire (processApi env)) = False"
  shows "\<exists>r. analyze env req = Inr r \<and> data_source r = TestData \<and>
           time_series r = syntheticSeries (random env) (period req) \<and>
           length (forecast r) = 7 \<and> length (health_grid r) = 9 \<and>
           set (stress_zones r) \<subseteq> set (health_grid r)"
proof -
  have "poly \<noteq> []" using assms(3) by auto
  then obtain bbox where b: "paddedBBox poly = Some bbox"
    using paddedBBox_nonempty by blast
  from analyzeWithToken_fallback [OF assms(4), of bbox "period req"]
  show ?thesis
    using assms(1,2,3) b by (auto simp: analyze_def)
qed

lemma analyze_token_throws:
  assumes "polygon req = Some poly" "3 \<le> length poly" "getAccessToken env = TokenThrows"
  shows "analyze env req = Inl Status500"
proof -
  have "poly \<noteq> []" using assms(2) by auto
  then obtain bbox where "paddedBBox poly = Some bbox"
    using paddedBBox_nonempty by blast
  then show ?thesis
    using assms by (simp add: analyze_def)
qed

lemma acquire_unavailable:
  "fst (acquire FetchThrows) = False"
  "fst (acquire ResponseNotOk) = False"
  "fst (acquire (ResponseOk TiffThrows)) = False"
  "filter (\<lambda>v. \<not> isNaN v) (concat (rasterRows width height data)) = [] \<Longrightarrow>
     fst (acquire (ResponseOk (Tiff width height data))) = False"
  by (simp_all add: acquire_def Let_def)

lemma seriesLoop_all:
  assumes "\<And>i k. P (f i k)"
  shows "\<forall>v\<in>set (seriesLoop f i k). P v"
  using assms
proof (induction f i k rule: seriesLoop.induct)
  case (1 f i k)
  show ?case
  proof (cases "0 \<le> i")
    case True
    then show ?thesis using "1.IH" "1.prems" by (subst seriesLoop.simps) simp
  next
    case False
    then show ?thesis by (subst seriesLoop.simps) simp
  qed
qed

lemma anchoredValue_in_range:
  "\<exists>x. anchoredValue (Num a) rnd i k = Num x \<and> 0.1 \<le> x \<and> x \<le> 0.9"
proof -
  have "anchoredValue (Num a) rnd i k =
        Num (clamp (a + sin (real_of_int i / 5) * 0.05 + (rnd k * 0.02 - 0.01)))"
    by (simp add: anchoredValue_def clamp_def)
  then show ?thesis using clamp_range by blast
qed

lemma syntheticValue_in_range:
  assumes "\<forall>k. 0 \<le> rnd k \<and> rnd k < 1"
  shows "\<exists>x. syntheticValue rnd i k = Num x \<and> 0.1 \<le> x \<and> x \<le> 0.9"
proof -
  let ?s = "sin (real_of_int i / 10)"
  have r: "0 \<le> rnd k" "rnd k < 1" using assms by simp_all
  have s: "- 1 \<le> ?s" "?s \<le> 1" by simp_all
  have "0.1 \<le> 0.5 + ?s * 0.2 + rnd k * 0.1" "0.5 + ?s * 0.2 + rnd k * 0.1 \<le> 0.9"
    using r s by linarith+
  then show ?thesis unfolding syntheticValue_def by blast
qed

lemma foldl_jadd_valid:
  "\<forall>v\<in>set vs. \<not> isNaN v \<Longrightarrow> \<exists>r. foldl jadd (Num s) vs = Num r"
proof (induction vs arbitrary: s)
  case Nil
  then show ?case by simp
next
  case (Cons v vs)
  then obtain a where "v = Num a" by (cases v) auto
  then show ?case using Cons by simp
qed

lemma acquire_real_avg:
  assumes "acquire q = (True, m, a)"
  shows "\<exists>r. a = Some (Num r)"
proof (cases q)
  case FetchThrows
  then show ?thesis using assms by (simp add: acquire_def)
next
  case ResponseNotOk
  then show ?thesis using assms by (simp add: acquire_def)
next
  case (ResponseOk t)
  show ?thesis
  proof (cases t)
    case TiffThrows
    then show ?thesis using assms ResponseOk by (simp add: acquire_def)
  next
    case (Tiff w h d)
    let ?vs = "filter (\<lambda>v. \<not> isNaN v) (concat (rasterRows w h d))"
    obtain r where r: "reduceSum ?vs = Num r"
      unfolding reduceSum_def using foldl_jadd_valid [of ?vs 0] by auto
    show ?thesis
      using assms ResponseOk Tiff r
      by (auto simp: acquire_def Let_def split: if_splits)
  qed
qed

lemma in_range_map_Num:
  "\<forall>v\<in>set vs. \<exists>x. v = Num x \<and> P x \<Longrightarrow> \<exists>xs. vs = map Num xs \<and> (\<forall>x\<in>set xs. P x)"
proof (induction vs)
  case Nil
  then show ?case by simp
next
  case (Cons v vs)
  then obtain x xs where "v = Num x" "P x" "vs = map Num xs" "\<forall>x\<in>set xs. P x" by auto
  then have "v # vs = map Num (x # xs) \<and> (\<forall>y\<in>set (x # xs). P y)" by simp
  then show ?case by (rule exI [of _ "x # xs"])
qed

text \<open>
  Every series the handler builds, and so every series it passes to \<open>linearForecast\<close>,
  has its values in \<open>[0.1, 0.9]\<close>: the series anchored at the real mean is clamped, and
  the synthetic one lies in \<open>[0.3, 0.8)\<close>. The forecast of the response is in range too.
\<close>

lemma handler_series:
  assumes "\<forall>k. 0 \<le> random env k \<and> random env k < 1"
    and "acquire (processApi env) = (u, m, a)"
  shows "\<forall>v\<in>set (fst (case (u, a) of
            (True, Some c) \<Rightarrow> (seriesLoop (anchoredValue c (random env)) p 0, c)
          | _ \<Rightarrow> (syntheticSeries (random env) p, mean (syntheticSeries (random env) p)))).
           \<exists>x. v = Num x \<and> 0.1 \<le> x \<and> x \<le> 0.9"
proof (cases u)
  case True
  obtain r where a: "a = Some (Num r)"
    using acquire_real_avg [of "processApi env" m a] assms(2) True by auto
  have "\<forall>v\<in>set (seriesLoop (anchoredValue (Num r) (random env)) p 0).
          \<exists>x. v = Num x \<and> 0.1 \<le> x \<and> x \<le> 0.9"
    by (rule seriesLoop_all) (rule anchoredValue_in_range)
  then show ?thesis using True a by simp
next
  case False
  have "\<forall>v\<in>set (seriesLoop (syntheticValue (random env)) p 0).
          \<exists>x. v = Num x \<and> 0.1 \<le> x \<and> x \<le> 0.9"
    by (rule seriesLoop_all) (rule syntheticValue_in_range [OF assms(1)])
  then show ?thesis using False by (simp add: syntheticSeries_def)
qed

lemma analyzeWithToken_series:
  assumes "analyzeWithToken env bbox p = Inr r"
    and "\<forall>k. 0 \<le> random env k \<and> random env k < 1"
  shows "(\<forall>v\<in>set (time_series r). \<exists>x. v = Num x \<and> 0.1 \<le> x \<and> x \<le> 0.9) \<and>
         forecast r = linearForecast (slice_last5 (time_series r)) 7 \<and>
         (\<forall>v\<in>set (forecast r). \<exists>x. v = Num x \<and> 0.1 \<le> x \<and> x \<le> 0.9)"
proof -
  obtain u m a where acq: "acquire (processApi env) = (u, m, a)"
    by (cases "acquire (processApi env)")
  define series where "series = (case (u, a) of
            (True, Some c) \<Rightarrow> (seriesLoop (anchoredValue c (random env)) p 0, c)
          | _ \<Rightarrow> (syntheticSeries (random env) p, mean (syntheticSeries (random env) p)))"
  have rng: "\<forall>v\<in>set (fst series). \<exists>x. v = Num x \<and> 0.1 \<le> x \<and> x \<le> 0.9"
    unfolding series_def by (rule handler_series [OF assms(2) acq])
  have fields: "time_series r = fst series \<and> forecast r = linearForecast (slice_last5 (fst series)) 7"
    using assms(1) unfolding analyzeWithToken_def acq series_def
    by (auto simp: Let_def split: prod.splits sum.splits)
  obtain xs where xs: "fst series = map Num xs" "\<forall>x\<in>set xs. 0.1 \<le> x \<and> x \<le> 0.9"
    using in_range_map_Num [OF rng] by blast
  have sl: "slice_last5 (map Num xs) = map Num (slice_last5 xs)"
    by (simp add: slice_last5_def drop_map)
  have "\<forall>x\<in>set (slice_last5 xs). 0.1 \<le> x \<and> x \<le> 0.9"
    using xs(2) unfolding slice_last5_def by (meson in_set_dropD)
  from forecast_in_range_aux [OF this, of 7]
  have "\<forall>v\<in>set (forecast r). \<exists>x. v = Num x \<and> 0.1 \<le> x \<and> x \<le> 0.9"
    using fields xs(1) sl by simp
  then show ?thesis using rng fields by simp
qed

text \<open>
  Claim C1 says that no failure of imagery acquisition, obtaining the access token
  included, makes the request fail. The handler awaits \<open>getAccessToken()\<close> outside the
  inner \<open>try\<close> block that guards the Process API call, so an exception of
  \<open>getAccessToken\<close> reaches the outer \<open>catch\<close>: the answer is status 500, not a synthetic
  result.
\<close>

theorem analyze_token_failure:
  "analyze \<lparr>getAccessToken = TokenThrows, processApi = p, random = rnd\<rparr>
           \<lparr>polygon = Some [(0, 0), (0, 1), (1, 1), (1, 0)], period = 30\<rparr> = Inl Status500"
  by (simp add: analyze_def paddedBBox_def rawBounds_def Let_def)

end
